theory Spec2Isabelle
  imports Complex_Main "HOL-Library.Sublist"
begin

section \<open>JavaScript strings\<close>

text \<open>
  A JavaScript string is a sequence of UTF-16 code units. The texts of app.js are mostly
  Japanese, so a string is modelled as the list of its code units; the ASCII literals of
  the source are written through \<open>u\<close>, the others as their code units in hexadecimal.
  A string is truthy exactly when it is not empty.
\<close>

type_synonym ustring = "nat list"

definition u :: "string \<Rightarrow> ustring" where
  "u s = map of_char s"

text \<open>\<open>parts.join(sep)\<close>.\<close>

fun join :: "ustring \<Rightarrow> ustring list \<Rightarrow> ustring" where
  "join sep [] = []"
| "join sep [p] = p"
| "join sep (p # q # ps) = p @ sep @ join sep (q # ps)"

text \<open>\<open>s.split(sep)\<close> for a separator of one code unit: the empty string gives \<open>['']\<close>.\<close>

fun js_split :: "nat \<Rightarrow> ustring \<Rightarrow> ustring list" where
  "js_split sep [] = [[]]"
| "js_split sep (c # cs) =
     (if c = sep then [] # js_split sep cs
      else (case js_split sep cs of
              [] \<Rightarrow> [[c]]
            | p # ps \<Rightarrow> (c # p) # ps))"

text \<open>
  \<open>String.prototype.trim\<close> removes the code points WhiteSpace and LineTerminator of
  ECMA-262 from both ends: TAB, LF, VT, FF, CR, SP, NBSP, U+1680, U+2000..U+200A, U+2028,
  U+2029, U+202F, U+205F, U+3000 (the ideographic space) and U+FEFF.
\<close>

definition is_white_space :: "nat \<Rightarrow> bool" where
  "is_white_space c =
     (c \<in> set [0x09, 0x0A, 0x0B, 0x0C, 0x0D, 0x20, 0xA0, 0x1680,
               0x2000, 0x2001, 0x2002, 0x2003, 0x2004, 0x2005, 0x2006, 0x2007, 0x2008,
               0x2009, 0x200A, 0x2028, 0x2029, 0x202F, 0x205F, 0x3000, 0xFEFF])"

definition trim :: "ustring \<Rightarrow> ustring" where
  "trim s = rev (dropWhile is_white_space (rev (dropWhile is_white_space s)))"

text \<open>\<open>s.includes(k)\<close> is \<^const>\<open>sublist\<close> and \<open>s.startsWith(p)\<close> is \<^const>\<open>prefix\<close>.\<close>

datatype error = TypeError

section \<open>The dataset\<close>

record spot =
  spot_id :: ustring
  title :: ustring
  region :: ustring
  category :: ustring
  desc :: ustring
  color :: ustring

definition DUMMY_SPOTS :: "spot list" where
  "DUMMY_SPOTS =
    [\<lparr>spot_id = u ''s1'',
      title = [0x85CD, 0x67D3, 0x5DE5, 0x623F, 0x306E, 0x4F53, 0x9A13],
      region = [0x611B, 0x77E5, 0x770C, 0x2F, 0x6771, 0x6D77, 0x5E02],
      category = u ''crafts'',
      desc = [0x85CD, 0x306E, 0x6DF1, 0x3044, 0x9752, 0x3092, 0x81EA, 0x5206, 0x306E, 0x624B,
              0x3067],
      color = u ''#2f5a40''\<rparr>,
     \<lparr>spot_id = u ''s2'',
      title = [0x590F, 0x796D, 0x308A, 0x306E, 0x592A, 0x9F13],
      region = [0x4EAC, 0x90FD, 0x5E9C, 0x2F, 0x4EAC, 0x90FD, 0x5E02],
      category = u ''festival'',
      desc = [0x97FF, 0x304F, 0x592A, 0x9F13, 0x3068, 0x7DF4, 0x308A, 0x6B69, 0x304D],
      color = u ''#a83a2f''\<rparr>,
     \<lparr>spot_id = u ''s3'',
      title = [0x90F7, 0x571F, 0x6599, 0x7406, 0x6559, 0x5BA4],
      region = [0x9752, 0x68EE, 0x770C, 0x2F, 0x5F18, 0x524D, 0x5E02],
      category = u ''food'',
      desc = [0x5B63, 0x7BC0, 0x306B, 0x5BC4, 0x308A, 0x6DFB, 0x3046, 0x5473],
      color = u ''#3d4f66''\<rparr>,
     \<lparr>spot_id = u ''s4'',
      title = [0x753A, 0x5BB6, 0x5EFA, 0x7BC9, 0x3081, 0x3050, 0x308A],
      region = [0x4EAC, 0x90FD, 0x5E9C, 0x2F, 0x5B87, 0x6CBB, 0x5E02],
      category = u ''architecture'',
      desc = [0x53E4, 0x3044, 0x753A, 0x5BB6, 0x306E, 0x610F, 0x5320, 0x3092, 0x5B66, 0x3076],
      color = u ''#6a4a3b''\<rparr>,
     \<lparr>spot_id = u ''s5'',
      title = [0x9676, 0x82B8, 0x306E, 0x91CC, 0x306E, 0x5DE5, 0x623F, 0x8A2A, 0x554F],
      region = [0x611B, 0x77E5, 0x770C, 0x2F, 0x5CA1, 0x5D0E, 0x5E02],
      category = u ''experience'',
      desc = [0x571F, 0x3068, 0x706B, 0x306E, 0x7F8E, 0x3092, 0x4F53, 0x9A13],
      color = u ''#865a3f''\<rparr>,
     \<lparr>spot_id = u ''s6'',
      title = [0x4F1D, 0x627F, 0x8A9E, 0x308A, 0x306E, 0x591C],
      region = [0x9752, 0x68EE, 0x770C, 0x2F, 0x9752, 0x68EE, 0x5E02],
      category = u ''folklore'',
      desc = [0x8A9E, 0x308A, 0x90E8, 0x304C, 0x7D99, 0x3050, 0x7269, 0x8A9E],
      color = u ''#385b71''\<rparr>]"

section \<open>The document\<close>

text \<open>
  The markup of the page is not part of app.js, so the elements the script looks up are a
  part of the state: an element that \<open>querySelector\<close> does not find is \<open>None\<close>, and
  an element that is found carries the property the script writes. The four page
  elements carry their \<open>hidden\<close> flag; the elements of the detail page carry their text,
  their \<open>src\<close>, their \<open>innerHTML\<close> or their \<open>style.display\<close>.
\<close>

datatype onclick = NoHandler | OpenModelOverlay ustring ustring

record dom =
  page_top :: "bool option"
  page_results :: "bool option"
  page_map :: "bool option"
  page_detail :: "bool option"
  scrollY :: nat
  detailTitle :: "ustring option"
  detailRegion :: "ustring option"
  detailDesc :: "ustring option"
  detailImage :: "ustring option"
  detailExtra :: "ustring option"
  detailArArea :: "ustring option"
  detailModelViewer :: "(ustring \<times> ustring) option"
  detailArBtn :: "onclick option"
  mvArBtn :: bool

section \<open>The hash router\<close>

text \<open>The object \<open>pages\<close>: its own keys in insertion order, each with its element.\<close>

definition pages_keys :: "ustring list" where
  "pages_keys = [u ''top'', u ''results'', u ''map'', u ''detail'']"

definition pages :: "dom \<Rightarrow> (ustring \<times> bool option) list" where
  "pages d = [(u ''top'', page_top d), (u ''results'', page_results d),
              (u ''map'', page_map d), (u ''detail'', page_detail d)]"

text \<open>
  \<open>pages\<close> is an object literal, so its prototype is \<open>Object.prototype\<close>, and the
  operator \<open>in\<close> also finds the properties inherited from it. These are the property names
  of \<open>Object.prototype\<close> in ECMA-262 (20.1.3 and Annex B.2.2).
\<close>

definition Object_prototype_properties :: "ustring list" where
  "Object_prototype_properties =
    [u ''constructor'', u ''hasOwnProperty'', u ''isPrototypeOf'',
     u ''propertyIsEnumerable'', u ''toLocaleString'', u ''toString'', u ''valueOf'',
     u ''__proto__'', u ''__defineGetter__'', u ''__defineSetter__'',
     u ''__lookupGetter__'', u ''__lookupSetter__'']"

definition in_pages :: "ustring \<Rightarrow> bool" where
  "in_pages key = (key \<in> set pages_keys \<or> key \<in> set Object_prototype_properties)"

text \<open>
  The body of the \<open>forEach\<close> of \<open>showPage\<close> on one entry: a missing element is skipped,
  a present one gets \<open>hidden = (key !== name)\<close>.
\<close>

definition set_hidden :: "ustring \<Rightarrow> ustring \<Rightarrow> bool option \<Rightarrow> bool option" where
  "set_hidden name key el = (case el of None \<Rightarrow> None | Some _ \<Rightarrow> Some (key \<noteq> name))"

definition showPage :: "ustring \<Rightarrow> dom \<Rightarrow> dom" where
  "showPage name d =
     d\<lparr>page_top := set_hidden name (u ''top'') (page_top d),
       page_results := set_hidden name (u ''results'') (page_results d),
       page_map := set_hidden name (u ''map'') (page_map d),
       page_detail := set_hidden name (u ''detail'') (page_detail d),
       scrollY := 0\<rparr>"

text \<open>The pages that are shown: the keys whose element exists and is not hidden.\<close>

definition visible_pages :: "dom \<Rightarrow> ustring list" where
  "visible_pages d = map fst (filter (\<lambda>(key, el). el = Some False) (pages d))"

section \<open>The detail page\<close>

definition not_found_title :: ustring where
  "not_found_title = [0x8A73, 0x7D30, 0x60C5, 0x5831, 0x304C, 0x3042, 0x308A, 0x307E,
                       0x305B, 0x3093]"

definition not_found_desc :: ustring where
  "not_found_desc =
    [0x9078, 0x629E, 0x3055, 0x308C, 0x305F, 0x30B9, 0x30DD, 0x30C3, 0x30C8, 0x306E,
     0x8A73, 0x7D30, 0x60C5, 0x5831, 0x304C, 0x898B, 0x3064, 0x304B, 0x308A, 0x307E,
     0x305B, 0x3093, 0x3002]"

text \<open>
  The three image sources of the script are one template: an SVG rectangle of a width, a
  height and a fill, with \<open>'\<close> (code unit 0x27) around each attribute value.
\<close>

definition svg_rect :: "ustring \<Rightarrow> ustring \<Rightarrow> ustring \<Rightarrow> ustring" where
  "svg_rect w h fill =
     u ''data:image/svg+xml;utf8,<svg xmlns='' @ [0x27] @ u ''http://www.w3.org/2000/svg'' @
     [0x27] @ u '' width='' @ [0x27] @ w @ [0x27] @ u '' height='' @ [0x27] @ h @ [0x27] @
     u ''><rect width='' @ [0x27] @ u ''100%25'' @ [0x27] @ u '' height='' @ [0x27] @
     u ''100%25'' @ [0x27] @ u '' fill='' @ [0x27] @ fill @ [0x27] @ u ''/></svg>''"

definition not_found_image :: ustring where
  "not_found_image = svg_rect (u ''960'') (u ''420'') (u ''%23e0e0e0'')"

definition detail_image :: "ustring \<Rightarrow> ustring" where
  "detail_image fill = svg_rect (u ''960'') (u ''420'') fill"

definition region_label :: ustring where
  "region_label = [0x5730, 0x57DF, 0xFF1A]"

definition detail_suffix :: ustring where
  "detail_suffix =
    [0xFF08, 0x8A73, 0x7D30, 0x30DA, 0x30FC, 0x30B8, 0x30B5, 0x30F3, 0x30D7, 0x30EB,
     0xFF09]"

definition detail_extra :: ustring where
  "detail_extra =
    [0x0A, 0x20, 0x20, 0x20, 0x20, 0x3C, 0x6C, 0x69, 0x3E, 0x55B6, 0x696D, 0x6642,
     0x9593, 0xFF1A, 0x39, 0x3A, 0x30, 0x30, 0x301C, 0x31, 0x37, 0x3A, 0x30, 0x30, 0x3C,
     0x2F, 0x6C, 0x69, 0x3E, 0x0A, 0x20, 0x20, 0x20, 0x20, 0x3C, 0x6C, 0x69, 0x3E,
     0x4F53, 0x9A13, 0x6599, 0x91D1, 0xFF1A, 0x32, 0x2C, 0x30, 0x30, 0x30, 0x5186,
     0x301C, 0xFF08, 0x5185, 0x5BB9, 0x306B, 0x3088, 0x308A, 0x5909, 0x52D5, 0xFF09,
     0x3C, 0x2F, 0x6C, 0x69, 0x3E, 0x0A, 0x20, 0x20, 0x20, 0x20, 0x3C, 0x6C, 0x69, 0x3E,
     0x30A2, 0x30AF, 0x30BB, 0x30B9, 0xFF1A, 0x6700, 0x5BC4, 0x308A, 0x99C5, 0x304B,
     0x3089, 0x30D0, 0x30B9, 0x3067, 0x7D04, 0x32, 0x30, 0x5206, 0x3C, 0x2F, 0x6C, 0x69,
     0x3E, 0x0A, 0x20, 0x20, 0x20, 0x20, 0x3C, 0x6C, 0x69, 0x3E, 0x5099, 0x8003, 0xFF1A,
     0x8981, 0x4E88, 0x7D04, 0x30FB, 0x4F11, 0x696D, 0x65E5, 0x306F, 0x65BD, 0x8A2D,
     0x306B, 0x78BA, 0x8A8D, 0x3C, 0x2F, 0x6C, 0x69, 0x3E, 0x0A, 0x20, 0x20]"

text \<open>
  \<open>showDetail\<close>. Writing a property of an element that was not found raises a TypeError;
  the elements the source tests before use (\<open>arArea\<close>, \<open>modelViewer\<close>, the two
  buttons) are skipped when missing. Both branches begin by writing the same five
  elements, so the call raises exactly when one of them is missing.
  \<open>encodeURIComponent\<close> is the built-in of the language, taken as a parameter; it is
  applied to the colours of the dataset only.
\<close>

definition showDetail :: "(ustring \<Rightarrow> ustring) \<Rightarrow> ustring \<Rightarrow> dom \<Rightarrow> error + dom" where
  "showDetail encodeURIComponent spotId d =
     (if detailTitle d = None \<or> detailRegion d = None \<or> detailDesc d = None \<or>
         detailImage d = None \<or> detailExtra d = None
      then Inl TypeError
      else
        (case find (\<lambda>s. spot_id s = spotId) DUMMY_SPOTS of
           None \<Rightarrow>
             Inr (d\<lparr>detailTitle := Some not_found_title,
                    detailRegion := Some [],
                    detailDesc := Some not_found_desc,
                    detailImage := Some not_found_image,
                    detailExtra := Some [],
                    detailArArea := map_option (\<lambda>_. u ''none'') (detailArArea d)\<rparr>)
         | Some spot \<Rightarrow>
             (let d1 = d\<lparr>detailTitle := Some (title spot),
                         detailRegion := Some (region_label @ region spot),
                         detailDesc := Some (desc spot @ detail_suffix),
                         detailImage := Some (detail_image (encodeURIComponent (color spot))),
                         detailExtra := Some detail_extra\<rparr>
              in if spot_id spot = u ''s5'' \<and> detailArArea d \<noteq> None \<and>
                    detailModelViewer d \<noteq> None
                 then
                   (let d2 = d1\<lparr>detailModelViewer :=
                                   Some (u ''models/craft.glb'', u ''models/craft.usdz''),
                                 detailArArea := Some (u ''block'')\<rparr>
                    in if detailArBtn d \<noteq> None \<and> mvArBtn d
                       then Inr (d2\<lparr>detailArBtn :=
                                       Some (OpenModelOverlay (u ''models/craft.glb'')
                                                              (u ''models/craft.usdz''))\<rparr>)
                       else Inr d2)
                 else Inr (d1\<lparr>detailArArea :=
                                 map_option (\<lambda>_. u ''none'') (detailArArea d)\<rparr>))))"

text \<open>
  \<open>handleHashChange\<close>, with \<open>location.hash\<close> as its input. \<open>replace('#', '')\<close> removes
  the first \<open>#\<close> only; an empty rest stands for \<open>top\<close>.
\<close>

definition hash_token :: "ustring \<Rightarrow> ustring" where
  "hash_token location_hash =
     (let h = remove1 0x23 location_hash in if h = [] then u ''top'' else h)"

definition handleHashChange ::
  "(ustring \<Rightarrow> ustring) \<Rightarrow> ustring \<Rightarrow> dom \<Rightarrow> error + dom" where
  "handleHashChange encodeURIComponent location_hash d =
     (let hash = hash_token location_hash in
      if in_pages hash then Inr (showPage hash d)
      else if prefix (u ''detail:'') hash then
        (let parts = js_split 0x3A hash;
             spotId = (if 1 < length parts \<and> parts ! 1 \<noteq> [] then parts ! 1 else [])
         in case showDetail encodeURIComponent spotId d of
              Inl e \<Rightarrow> Inl e
            | Inr d' \<Rightarrow> Inr (showPage (u ''detail'') d'))
      else Inr (showPage (u ''top'') d))"

section \<open>The results page\<close>

text \<open>The values \<open>runResultsSearch\<close> reads from the form of the results page.\<close>

record form =
  resultsKeyword :: ustring
  prefSelect :: ustring
  citySelect_disabled :: bool
  citySelect :: ustring
  checkedCategories :: "ustring list"

text \<open>
  A card of a result grid: the image (\<open>alt\<close>, \<open>src\<close>), the three texts, the label of the
  button and the hash its click handler sets.
\<close>

record card =
  card_alt :: ustring
  card_src :: ustring
  card_title :: ustring
  card_tag :: ustring
  card_desc :: ustring
  card_btn :: ustring
  card_hash :: ustring

datatype grid = Message ustring | Cards "card list"

record results_view =
  resultsTitle :: ustring
  resultsDesc :: ustring
  resultsGrid :: grid

definition detail_button :: ustring where
  "detail_button = [0x8A73, 0x7D30, 0x3092, 0x898B, 0x308B]"

definition render_card :: "(ustring \<Rightarrow> ustring) \<Rightarrow> spot \<Rightarrow> card" where
  "render_card encodeURIComponent s =
     \<lparr>card_alt = title s,
      card_src = svg_rect (u ''360'') (u ''200'') (encodeURIComponent (color s)),
      card_title = title s,
      card_tag = region_label @ region s,
      card_desc = desc s,
      card_btn = detail_button,
      card_hash = u ''detail:'' @ spot_id s\<rparr>"

definition keyword_label :: ustring where
  "keyword_label = [0x30AD, 0x30FC, 0x30EF, 0x30FC, 0x30C9, 0xFF1A, 0x300C]"

definition pref_label :: ustring where
  "pref_label = [0x90FD, 0x9053, 0x5E9C, 0x770C, 0xFF1A, 0x300C]"

definition city_label :: ustring where
  "city_label = [0x5E02, 0x753A, 0x6751, 0xFF1A, 0x300C]"

definition category_label :: ustring where
  "category_label = [0x30AB, 0x30C6, 0x30B4, 0x30EA, 0xFF1A]"

definition close_quote :: ustring where
  "close_quote = [0x300D]"

definition results_title :: ustring where
  "results_title = [0x691C, 0x7D22, 0x7D50, 0x679C]"

definition showing_all :: ustring where
  "showing_all =
    [0x6761, 0x4EF6, 0x306B, 0x5408, 0x81F4, 0x3057, 0x305F, 0x30B9, 0x30DD, 0x30C3,
     0x30C8, 0x3092, 0x8868, 0x793A, 0x3057, 0x307E, 0x3059]"

definition no_results :: ustring where
  "no_results =
    [0x8A72, 0x5F53, 0x3059, 0x308B, 0x30B9, 0x30DD, 0x30C3, 0x30C8, 0x304C, 0x898B,
     0x3064, 0x304B, 0x308A, 0x307E, 0x305B, 0x3093, 0x3067, 0x3057, 0x305F, 0x3002,
     0x6761, 0x4EF6, 0x3092, 0x8ABF, 0x6574, 0x3057, 0x3066, 0x304F, 0x3060, 0x3055,
     0x3044, 0x3002]"

text \<open>The four criteria, as the first four lines of \<open>runResultsSearch\<close> compute them.\<close>

definition search_kw :: "form \<Rightarrow> ustring" where
  "search_kw f = trim (resultsKeyword f)"

definition search_pref :: "form \<Rightarrow> ustring" where
  "search_pref f = prefSelect f"

definition search_city :: "form \<Rightarrow> ustring" where
  "search_city f = (if \<not> citySelect_disabled f \<and> citySelect f \<noteq> [] then citySelect f else [])"

definition selectedCats :: "form \<Rightarrow> ustring list" where
  "selectedCats f = checkedCategories f"

text \<open>The array \<open>parts\<close> and the text written to \<open>resultsDesc\<close>.\<close>

definition summary_parts :: "form \<Rightarrow> ustring list" where
  "summary_parts f =
     (if search_kw f \<noteq> [] then [keyword_label @ search_kw f @ close_quote] else []) @
     (if search_pref f \<noteq> [] then [pref_label @ search_pref f @ close_quote] else []) @
     (if search_city f \<noteq> [] then [city_label @ search_city f @ close_quote] else []) @
     (if selectedCats f \<noteq> []
      then [category_label @ join (u '' / '') (selectedCats f)] else [])"

definition summary_text :: "form \<Rightarrow> ustring" where
  "summary_text f =
     (if summary_parts f \<noteq> [] then join [0x3001] (summary_parts f) else showing_all)"

text \<open>
  The variable \<open>list\<close> after the four conditional filters. \<open>toLowerCase\<close> is the
  built-in of the language, taken as a parameter.
\<close>

definition search_list :: "(ustring \<Rightarrow> ustring) \<Rightarrow> form \<Rightarrow> spot list" where
  "search_list toLowerCase f =
     (let list = DUMMY_SPOTS;
          list = (if search_kw f \<noteq> []
                  then (let k = toLowerCase (search_kw f)
                        in filter (\<lambda>s. sublist k (toLowerCase (title s)) \<or>
                                        sublist k (toLowerCase (desc s)) \<or>
                                        sublist k (toLowerCase (region s))) list)
                  else list);
          list = (if search_pref f \<noteq> []
                  then filter (\<lambda>s. prefix (search_pref f) (region s)) list else list);
          list = (if search_city f \<noteq> []
                  then filter (\<lambda>s. sublist (0x2F # search_city f) (region s)) list
                  else list);
          list = (if selectedCats f \<noteq> []
                  then filter (\<lambda>s. category s \<in> set (selectedCats f)) list else list)
      in list)"

definition runResultsSearch ::
  "(ustring \<Rightarrow> ustring) \<Rightarrow> (ustring \<Rightarrow> ustring) \<Rightarrow> form \<Rightarrow> results_view" where
  "runResultsSearch toLowerCase encodeURIComponent f =
     \<lparr>resultsTitle = results_title,
      resultsDesc = summary_text f,
      resultsGrid =
        (if search_list toLowerCase f = [] then Message no_results
         else Cards (map (render_card encodeURIComponent) (search_list toLowerCase f)))\<rparr>"

section \<open>The map page\<close>

text \<open>
  Coordinates and the radius are JavaScript numbers, that is IEEE 754 doubles. Their
  arithmetic belongs to the language and not to app.js, so the type of numbers is a type
  parameter, and the operations \<open>renderCircleResults\<close> applies to numbers (\<open>-\<close>,
  \<open>*\<close>, \<open>+\<close>, \<open>Math.sqrt\<close> and \<open>\<le>\<close>) are parameters, gathered in one record. The
  number literals of the source are the numerals of the type. \<open>SPOT_COORDS\<close> is read at
  the ids of the dataset only.
\<close>

record 'n number_ops =
  num_sub :: "'n \<Rightarrow> 'n \<Rightarrow> 'n"
  num_mul :: "'n \<Rightarrow> 'n \<Rightarrow> 'n"
  num_add :: "'n \<Rightarrow> 'n \<Rightarrow> 'n"
  Math_sqrt :: "'n \<Rightarrow> 'n"
  num_le :: "'n \<Rightarrow> 'n \<Rightarrow> bool"

definition SPOT_COORDS :: "(ustring \<times> 'n::numeral \<times> 'n) list" where
  "SPOT_COORDS =
    [(u ''s1'', 260, 200), (u ''s2'', 520, 240), (u ''s3'', 200, 140),
     (u ''s4'', 500, 260), (u ''s5'', 320, 220), (u ''s6'', 180, 120)]"

record 'n circle =
  circle_x :: 'n
  circle_y :: 'n
  circle_r :: 'n

definition circleState :: "'n::numeral circle" where
  "circleState = \<lparr>circle_x = 300, circle_y = 200, circle_r = 80\<rparr>"

definition outside_message :: ustring where
  "outside_message =
    [0x6307, 0x5B9A, 0x7BC4, 0x56F2, 0x5185, 0x306B, 0x30B9, 0x30DD, 0x30C3, 0x30C8,
     0x304C, 0x3042, 0x308A, 0x307E, 0x305B, 0x3093, 0x3002, 0x5186, 0x306E, 0x4F4D,
     0x7F6E, 0x307E, 0x305F, 0x306F, 0x534A, 0x5F84, 0x3092, 0x8ABF, 0x6574, 0x3057,
     0x3066, 0x304F, 0x3060, 0x3055, 0x3044, 0x3002]"

text \<open>The predicate of the filter of \<open>renderCircleResults\<close>, and the array \<open>inside\<close>.\<close>

definition in_circle :: "'n::numeral number_ops \<Rightarrow> 'n circle \<Rightarrow> spot \<Rightarrow> bool" where
  "in_circle ops cs s =
     (case map_of SPOT_COORDS (spot_id s) of
        None \<Rightarrow> False
      | Some (x, y) \<Rightarrow>
          (let dx = num_sub ops x (circle_x cs); dy = num_sub ops y (circle_y cs)
           in num_le ops
                (Math_sqrt ops (num_add ops (num_mul ops dx dx) (num_mul ops dy dy)))
                (circle_r cs)))"

definition inside :: "'n::numeral number_ops \<Rightarrow> 'n circle \<Rightarrow> spot list" where
  "inside ops cs = filter (in_circle ops cs) DUMMY_SPOTS"

definition renderCircleResults ::
  "(ustring \<Rightarrow> ustring) \<Rightarrow> 'n::numeral number_ops \<Rightarrow> 'n circle \<Rightarrow> grid" where
  "renderCircleResults encodeURIComponent ops cs =
     (if inside ops cs = [] then Message outside_message
      else Cards (map (render_card encodeURIComponent) (inside ops cs)))"

text \<open>
  The distance the filter computes for a spot at \<open>(x, y)\<close>: the left side of its
  comparison.
\<close>

definition computed_distance :: "'n number_ops \<Rightarrow> 'n circle \<Rightarrow> 'n \<Rightarrow> 'n \<Rightarrow> 'n" where
  "computed_distance ops cs x y =
     (let dx = num_sub ops x (circle_x cs); dy = num_sub ops y (circle_y cs)
      in Math_sqrt ops (num_add ops (num_mul ops dx dx) (num_mul ops dy dy)))"

text \<open>
  The exact real numbers as one instance of the operations, to run the filter on concrete
  circles.
\<close>

definition real_numbers :: "real number_ops" where
  "real_numbers =
     \<lparr>num_sub = (-), num_mul = (*), num_add = (+), Math_sqrt = sqrt, num_le = (\<le>)\<rparr>"

section \<open>The carousel\<close>

text \<open>
  The state of the carousel: the number of slides and the width of the carousel (both
  given by the page), the variables \<open>currentIndex\<close>, \<open>autoplayTimer\<close>, \<open>pointerDown\<close>
  and \<open>startX\<close>, the transform and transition of the track, and the \<open>is-active\<close> class
  of each dot. \<open>intervals\<close> are the handles of the repeating timers of \<open>nextSlide\<close> that
  the window holds; \<open>setInterval\<close> returns a handle greater than zero that is not in
  use, here the counter \<open>next_handle\<close>.
\<close>

record carousel =
  slides_length :: nat
  offsetWidth :: real
  currentIndex :: int
  track_translateX :: real
  track_transition_none :: bool
  dots :: "bool list"
  autoplayTimer :: "nat option"
  intervals :: "nat list"
  next_handle :: nat
  pointerDown :: bool
  startX :: real

definition createDots :: "carousel \<Rightarrow> carousel" where
  "createDots c = c\<lparr>dots := map (\<lambda>i. i = 0) [0..<slides_length c]\<rparr>"

definition goToSlide :: "int \<Rightarrow> carousel \<Rightarrow> carousel" where
  "goToSlide index c =
     (let index = (if index < 0 then int (slides_length c) - 1 else index);
          index = (if index \<ge> int (slides_length c) then 0 else index)
      in c\<lparr>currentIndex := index,
           track_translateX := - real_of_int index * offsetWidth c,
           dots := map (\<lambda>i. int i = index) [0..<length (dots c)]\<rparr>)"

definition prevSlide :: "carousel \<Rightarrow> carousel" where
  "prevSlide c = goToSlide (currentIndex c - 1) c"

definition nextSlide :: "carousel \<Rightarrow> carousel" where
  "nextSlide c = goToSlide (currentIndex c + 1) c"

text \<open>\<open>if (autoplayTimer)\<close> holds for a handle that is neither \<open>null\<close> nor zero.\<close>

definition stopAutoplay :: "carousel \<Rightarrow> carousel" where
  "stopAutoplay c =
     (case autoplayTimer c of
        None \<Rightarrow> c
      | Some t \<Rightarrow>
          if t \<noteq> 0 then c\<lparr>intervals := removeAll t (intervals c), autoplayTimer := None\<rparr>
          else c)"

definition startAutoplay :: "carousel \<Rightarrow> carousel" where
  "startAutoplay c =
     (let c1 = stopAutoplay c
      in c1\<lparr>autoplayTimer := Some (next_handle c1),
            intervals := intervals c1 @ [next_handle c1],
            next_handle := Suc (next_handle c1)\<rparr>)"

definition endSwipe :: "real \<Rightarrow> carousel \<Rightarrow> carousel" where
  "endSwipe clientX c =
     (if \<not> pointerDown c then c
      else
        (let c1 = c\<lparr>pointerDown := False, track_transition_none := False\<rparr>;
             moved = clientX - startX c1;
             threshold = offsetWidth c1 * (18 / 100);
             c2 = (if moved > threshold then prevSlide c1
                   else if moved < - threshold then nextSlide c1
                   else goToSlide (currentIndex c1) c1)
         in startAutoplay c2))"

definition initCarousel :: "carousel \<Rightarrow> carousel" where
  "initCarousel c = startAutoplay (goToSlide 0 (createDots c))"

text \<open>
  The events the script listens to. \<open>PointerEnd\<close> stands for \<open>pointerup\<close>,
  \<open>pointercancel\<close> and \<open>pointerleave\<close>, all bound to \<open>endSwipe\<close>; \<open>Resize\<close> carries
  the new width of the carousel; \<open>Tick\<close> is the firing of the timer with that handle, which
  runs \<open>nextSlide\<close> only while the window still holds the timer.
\<close>

datatype event =
    DOMContentLoaded
  | PointerDown real
  | PointerMove real
  | PointerEnd real
  | PrevClick
  | NextClick
  | DotClick nat
  | MouseEnter
  | MouseLeave
  | Resize real
  | Tick nat

fun handle_event :: "event \<Rightarrow> carousel \<Rightarrow> carousel" where
  "handle_event DOMContentLoaded c = initCarousel c"
| "handle_event (PointerDown clientX) c =
     stopAutoplay (c\<lparr>pointerDown := True, startX := clientX\<rparr>)"
| "handle_event (PointerMove clientX) c =
     (if \<not> pointerDown c then c
      else c\<lparr>track_transition_none := True,
             track_translateX :=
               - real_of_int (currentIndex c) * offsetWidth c + (clientX - startX c)\<rparr>)"
| "handle_event (PointerEnd clientX) c = endSwipe clientX c"
| "handle_event PrevClick c = startAutoplay (prevSlide c)"
| "handle_event NextClick c = startAutoplay (nextSlide c)"
| "handle_event (DotClick i) c = goToSlide (int i) c"
| "handle_event MouseEnter c = stopAutoplay c"
| "handle_event MouseLeave c = startAutoplay c"
| "handle_event (Resize w) c = goToSlide (currentIndex c) (c\<lparr>offsetWidth := w\<rparr>)"
| "handle_event (Tick t) c = (if t \<in> set (intervals c) then nextSlide c else c)"

text \<open>The state when the script has been loaded, before any event.\<close>

definition loaded :: "nat \<Rightarrow> real \<Rightarrow> carousel" where
  "loaded n w =
     \<lparr>slides_length = n, offsetWidth = w, currentIndex = 0, track_translateX = 0,
      track_transition_none = False, dots = [], autoplayTimer = None, intervals = [],
      next_handle = 1, pointerDown = False, startX = 0\<rparr>"

text \<open>
  The states the carousel can reach: any sequence of events from the loaded state. The
  handlers that \<open>initCarousel\<close> registers are taken as registered from the start, which
  only adds reachable states.
\<close>

inductive reachable :: "nat \<Rightarrow> real \<Rightarrow> carousel \<Rightarrow> bool" for n w where
  reachable_loaded: "reachable n w (loaded n w)"
| reachable_event: "reachable n w c \<Longrightarrow> reachable n w (handle_event e c)"

text \<open>
  A document in which every element the script looks up exists, with the top page shown.
\<close>

definition sample_dom :: dom where
  "sample_dom =
     \<lparr>page_top = Some False, page_results = Some True, page_map = Some True,
      page_detail = Some True, scrollY = 120,
      detailTitle = Some [], detailRegion = Some [], detailDesc = Some [],
      detailImage = Some [], detailExtra = Some [], detailArArea = Some (u ''block''),
      detailModelViewer = Some ([], []), detailArBtn = Some NoHandler, mvArBtn = True\<rparr>"

text \<open>The five elements of the detail page that \<open>showDetail\<close> writes without a test.\<close>

definition detail_elements_present :: "dom \<Rightarrow> bool" where
  "detail_elements_present d =
     (detailTitle d \<noteq> None \<and> detailRegion d \<noteq> None \<and> detailDesc d \<noteq> None \<and>
      detailImage d \<noteq> None \<and> detailExtra d \<noteq> None)"

text \<open>The form as the page loads it, and a form with a blank keyword and a region.\<close>

definition blank_form :: form where
  "blank_form =
     \<lparr>resultsKeyword = [], prefSelect = [], citySelect_disabled = True, citySelect = [],
      checkedCategories = []\<rparr>"

definition kyoto_form :: form where
  "kyoto_form =
     \<lparr>resultsKeyword = [0x20, 0x3000, 0x09], prefSelect = [0x4EAC, 0x90FD, 0x5E9C],
      citySelect_disabled = False, citySelect = [0x5B87, 0x6CBB, 0x5E02],
      checkedCategories = []\<rparr>"

text \<open>A carousel of five slides, 800 pixels wide, after \<open>initCarousel\<close>.\<close>

definition five_slides :: carousel where
  "five_slides = handle_event DOMContentLoaded (loaded 5 800)"

text \<open>
  The invariant of the autoplay timer: the window holds no timer of \<open>nextSlide\<close> but the
  one \<open>autoplayTimer\<close> names, and every handle in use is below the next fresh one.
\<close>

definition timer_inv :: "carousel \<Rightarrow> bool" where
  "timer_inv c =
     (0 < next_handle c \<and>
      (case autoplayTimer c of
         None \<Rightarrow> intervals c = []
       | Some t \<Rightarrow> 0 < t \<and> t < next_handle c \<and> intervals c = [t]))"

section \<open>The router: fallback and mutual exclusion\<close>

text \<open>
  Showing one of the four pages of \<open>pages\<close>, in a document that has all four, leaves
  exactly that page visible.
\<close>

lemma showPage_own_key:
  assumes "name \<in> set pages_keys"
    and "page_top d \<noteq> None" "page_results d \<noteq> None" "page_map d \<noteq> None" "page_detail d \<noteq> None"
  shows "visible_pages (showPage name d) = [name]"
  using assms
  by (auto simp: visible_pages_def showPage_def pages_def pages_keys_def set_hidden_def u_def)

text \<open>
  C1, as stated, fails at the plain token \<open>detail\<close>: it is none of \<open>top\<close>, \<open>results\<close>,
  \<open>map\<close> and has no \<open>detail:\<close> prefix, yet it is a key of \<open>pages\<close>, so the router shows
  the detail page and not the top page.
\<close>

theorem plain_detail_token_counterexample:
  "hash_token (u ''#detail'') = u ''detail'' \<and>
   u ''detail'' \<notin> set [u ''top'', u ''results'', u ''map''] \<and>
   \<not> prefix (u ''detail:'') (u ''detail'') \<and>
   handleHashChange id (u ''#detail'') sample_dom \<noteq> Inr (showPage (u ''top'') sample_dom) \<and>
   map_sum id visible_pages (handleHashChange id (u ''#detail'') sample_dom) = Inr [u ''detail'']"
  by (simp add: hash_token_def handleHashChange_def in_pages_def pages_keys_def
      visible_pages_def showPage_def pages_def set_hidden_def sample_dom_def u_def)

text \<open>
  C1, amended: for every \<open>location.hash\<close> whose token is not a key of \<open>pages\<close> (\<open>top\<close>,
  \<open>results\<close>, \<open>map\<close>, \<open>detail\<close>), is not the name of a property that \<open>pages\<close> inherits
  from \<open>Object.prototype\<close>, and does not start with \<open>detail:\<close>, \<open>handleHashChange\<close>
  shows the top page.
\<close>

theorem handleHashChange_fallback_top:
  assumes "hash_token location_hash \<notin> set pages_keys"
    and "hash_token location_hash \<notin> set Object_prototype_properties"
    and "\<not> prefix (u ''detail:'') (hash_token location_hash)"
  shows "handleHashChange enc location_hash d = Inr (showPage (u ''top'') d)"
  using assms by (simp add: handleHashChange_def in_pages_def)

theorem handleHashChange_fallback_top_witness:
  "hash_token (u ''#about'') \<notin> set pages_keys \<and>
   hash_token (u ''#about'') \<notin> set Object_prototype_properties \<and>
   \<not> prefix (u ''detail:'') (hash_token (u ''#about'')) \<and>
   handleHashChange id (u ''#about'') sample_dom = Inr (showPage (u ''top'') sample_dom) \<and>
   visible_pages (showPage (u ''top'') sample_dom) = [u ''top'']"
proof -
  have t: "hash_token (u ''#about'') = u ''about''"
    by (simp add: hash_token_def u_def)
  have a: "hash_token (u ''#about'') \<notin> set pages_keys"
    unfolding t by (simp add: pages_keys_def u_def)
  have b: "hash_token (u ''#about'') \<notin> set Object_prototype_properties"
    unfolding t by (simp add: Object_prototype_properties_def u_def)
  have c: "\<not> prefix (u ''detail:'') (hash_token (u ''#about''))"
    unfolding t by (simp add: u_def)
  have v: "visible_pages (showPage (u ''top'') sample_dom) = [u ''top'']"
    by (simp add: visible_pages_def showPage_def pages_def set_hidden_def sample_dom_def u_def)
  show ?thesis
    using a b c v handleHashChange_fallback_top [OF a b c, of id sample_dom] by simp
qed

text \<open>
  C2: after the router has handled a token, exactly one page is visible. The code breaks
  this at the token \<open>toString\<close>: \<open>'toString' in pages\<close> holds through the prototype, so
  \<open>showPage('toString')\<close> runs and hides all four pages.
\<close>

theorem inherited_property_token_hides_every_page:
  "hash_token (u ''#toString'') = u ''toString'' \<and>
   handleHashChange enc (u ''#toString'') sample_dom = Inr (showPage (u ''toString'') sample_dom) \<and>
   visible_pages (showPage (u ''toString'') sample_dom) = []"
  by (simp add: hash_token_def handleHashChange_def in_pages_def pages_keys_def
      Object_prototype_properties_def
      visible_pages_def showPage_def pages_def set_hidden_def sample_dom_def u_def)

section \<open>The detail page: unknown ids\<close>

text \<open>
  C7: for every spot id that is not in the dataset (the empty string included), in a
  document that has the five elements of the detail page, \<open>showDetail\<close> returns without
  raising, writes the fixed not-found title, description and image, empties the region and
  the extra list, and sets the display of the 3D-model area, when the page has one, to
  \<open>none\<close>.
\<close>

theorem showDetail_unknown_id:
  assumes "spotId \<notin> set (map spot_id DUMMY_SPOTS)"
    and "detail_elements_present d"
  shows "showDetail enc spotId d =
           Inr (d\<lparr>detailTitle := Some not_found_title,
                  detailRegion := Some [],
                  detailDesc := Some not_found_desc,
                  detailImage := Some not_found_image,
                  detailExtra := Some [],
                  detailArArea := map_option (\<lambda>_. u ''none'') (detailArArea d)\<rparr>)"
proof -
  have "find (\<lambda>s. spot_id s = spotId) DUMMY_SPOTS = None"
    using assms(1) by (auto simp: find_None_iff)
  then show ?thesis
    using assms(2) by (simp add: showDetail_def detail_elements_present_def)
qed

lemma unknown_id_not_in_dataset: "u ''unknown-id'' \<notin> set (map spot_id DUMMY_SPOTS)"
  by (simp add: DUMMY_SPOTS_def u_def)

theorem showDetail_unknown_id_witness:
  "u ''unknown-id'' \<notin> set (map spot_id DUMMY_SPOTS) \<and> detail_elements_present sample_dom \<and>
   showDetail id (u ''unknown-id'') sample_dom =
     Inr (sample_dom\<lparr>detailTitle := Some not_found_title,
                  detailRegion := Some [],
                  detailDesc := Some not_found_desc,
                  detailImage := Some not_found_image,
                  detailExtra := Some [],
                  detailArArea := Some (u ''none'')\<rparr>)"
proof -
  have p: "detail_elements_present sample_dom"
    by (simp add: detail_elements_present_def sample_dom_def)
  have a: "detailArArea sample_dom = Some (u ''block'')"
    by (simp add: sample_dom_def)
  show ?thesis
    using unknown_id_not_in_dataset p
      showDetail_unknown_id [OF unknown_id_not_in_dataset p, of id]
    by (simp add: a)
qed

text \<open>
  Through the router: the tokens \<open>detail:unknown-id\<close> and \<open>detail:\<close> (an empty id)
  show the detail page with the not-found content, and nothing is raised.
\<close>

lemma detail_token_with_unknown_id:
  "map_sum id (\<lambda>d. (visible_pages d, detailTitle d, detailArArea d))
     (handleHashChange id (u ''#detail:unknown-id'') sample_dom) =
   Inr ([u ''detail''], Some not_found_title, Some (u ''none''))"
  by (simp add: hash_token_def handleHashChange_def in_pages_def pages_keys_def
      Object_prototype_properties_def showDetail_def DUMMY_SPOTS_def
      visible_pages_def showPage_def pages_def set_hidden_def sample_dom_def u_def)

lemma detail_token_with_empty_id:
  "map_sum id (\<lambda>d. (visible_pages d, detailTitle d, detailArArea d))
     (handleHashChange id (u ''#detail:'') sample_dom) =
   Inr ([u ''detail''], Some not_found_title, Some (u ''none''))"
  by (simp add: hash_token_def handleHashChange_def in_pages_def pages_keys_def
      Object_prototype_properties_def showDetail_def DUMMY_SPOTS_def
      visible_pages_def showPage_def pages_def set_hidden_def sample_dom_def u_def)

section \<open>The results page: the filter\<close>

lemma DUMMY_SPOTS_not_empty: "DUMMY_SPOTS \<noteq> []"
  by (simp add: DUMMY_SPOTS_def)

text \<open>
  C5: with an empty keyword, no prefecture, no city (the city select disabled or empty)
  and no category checked, the filtered list is the whole dataset, all six cards are
  drawn, and the summary is the generic text.
\<close>

theorem runResultsSearch_no_criteria:
  assumes "resultsKeyword f = []" and "prefSelect f = []"
    and "citySelect_disabled f \<or> citySelect f = []" and "checkedCategories f = []"
  shows "search_list lower f = DUMMY_SPOTS \<and>
         resultsDesc (runResultsSearch lower enc f) = showing_all \<and>
         resultsGrid (runResultsSearch lower enc f) = Cards (map (render_card enc) DUMMY_SPOTS)"
proof -
  have k: "search_kw f = []" using assms(1) by (simp add: search_kw_def trim_def)
  have p: "search_pref f = []" using assms(2) by (simp add: search_pref_def)
  have c: "search_city f = []" using assms(3) by (auto simp: search_city_def)
  have s: "selectedCats f = []" using assms(4) by (simp add: selectedCats_def)
  have l: "search_list lower f = DUMMY_SPOTS"
    by (simp add: search_list_def k p c s)
  have t: "summary_text f = showing_all"
    by (simp add: summary_text_def summary_parts_def k p c s)
  show ?thesis
    by (simp add: runResultsSearch_def l t DUMMY_SPOTS_not_empty)
qed

theorem runResultsSearch_no_criteria_witness:
  "resultsKeyword blank_form = [] \<and> prefSelect blank_form = [] \<and>
   (citySelect_disabled blank_form \<or> citySelect blank_form = []) \<and>
   checkedCategories blank_form = [] \<and>
   search_list id blank_form = DUMMY_SPOTS \<and>
   resultsDesc (runResultsSearch id id blank_form) = showing_all"
  using runResultsSearch_no_criteria [of blank_form id id]
  by (simp add: blank_form_def)

lemma trim_white_space:
  assumes "\<forall>c \<in> set s. is_white_space c"
  shows "trim s = []"
proof -
  have d: "dropWhile is_white_space s = []"
    using assms by simp
  show ?thesis unfolding trim_def d by simp
qed

text \<open>
  C9: the keyword is trimmed before use, so a keyword made of white space only (or empty)
  is no criterion: the search gives what it gives with an empty keyword, list and summary
  alike.
\<close>

theorem whitespace_keyword_ignored:
  assumes "\<forall>c \<in> set (resultsKeyword f). is_white_space c"
  shows "search_kw f = [] \<and>
         search_list lower f = search_list lower (f\<lparr>resultsKeyword := []\<rparr>) \<and>
         runResultsSearch lower enc f = runResultsSearch lower enc (f\<lparr>resultsKeyword := []\<rparr>)"
proof -
  have k: "search_kw f = []"
    using assms by (simp add: search_kw_def trim_white_space)
  have k': "search_kw (f\<lparr>resultsKeyword := []\<rparr>) = []"
    by (simp add: search_kw_def trim_def)
  have o: "search_pref (f\<lparr>resultsKeyword := []\<rparr>) = search_pref f"
    "search_city (f\<lparr>resultsKeyword := []\<rparr>) = search_city f"
    "selectedCats (f\<lparr>resultsKeyword := []\<rparr>) = selectedCats f"
    by (simp_all add: search_pref_def search_city_def selectedCats_def)
  have l: "search_list lower f = search_list lower (f\<lparr>resultsKeyword := []\<rparr>)"
    by (simp add: search_list_def k k' o)
  have t: "summary_text f = summary_text (f\<lparr>resultsKeyword := []\<rparr>)"
    by (simp add: summary_text_def summary_parts_def k k' o)
  show ?thesis
    using k l t by (simp add: runResultsSearch_def)
qed

theorem whitespace_keyword_ignored_witness:
  "resultsKeyword kyoto_form = [0x20, 0x3000, 0x09] \<and>
   is_white_space 0x20 \<and> is_white_space 0x3000 \<and> is_white_space 0x09 \<and>
   search_kw kyoto_form = [] \<and>
   runResultsSearch id id kyoto_form = runResultsSearch id id (kyoto_form\<lparr>resultsKeyword := []\<rparr>)"
proof -
  have w: "\<forall>c \<in> set (resultsKeyword kyoto_form). is_white_space c"
    by (simp add: kyoto_form_def is_white_space_def)
  have k: "resultsKeyword kyoto_form = [0x20, 0x3000, 0x09]"
    by (simp add: kyoto_form_def)
  have s: "is_white_space 0x20 \<and> is_white_space 0x3000 \<and> is_white_space 0x09"
    by (simp add: is_white_space_def)
  show ?thesis
    using k s whitespace_keyword_ignored [OF w, of id id] by simp
qed

text \<open>
  C10: whatever the criteria, the filtered list is a subsequence of the dataset: records
  are only removed, never reordered.
\<close>

theorem search_list_subseq: "subseq (search_list lower f) DUMMY_SPOTS"
  by (simp add: search_list_def Let_def)

theorem search_list_subseq_witness:
  "subseq (search_list id kyoto_form) DUMMY_SPOTS \<and>
   map spot_id (search_list id kyoto_form) = [u ''s4'']"
proof -
  have "map spot_id (search_list id kyoto_form) = [u ''s4'']"
    by (simp add: search_list_def search_kw_def trim_def is_white_space_def search_pref_def
        search_city_def selectedCats_def kyoto_form_def DUMMY_SPOTS_def sublist_code(3) u_def)
  then show ?thesis
    using search_list_subseq [of id kyoto_form] by simp
qed

section \<open>The carousel: the index\<close>

text \<open>
  C3, as stated, fails: with five slides \<open>goToSlide(-2)\<close> gives 4 where \<open>-2 mod 5\<close> is
  3, and \<open>goToSlide(7)\<close> gives 0 where \<open>7 mod 5\<close> is 2.
\<close>

theorem goToSlide_modulo_counterexample:
  "0 < slides_length five_slides \<and>
   currentIndex (goToSlide (-2) five_slides) = 4 \<and>
   (-2) mod int (slides_length five_slides) = 3 \<and>
   currentIndex (goToSlide (int (slides_length five_slides) + 2) five_slides) = 0 \<and>
   (int (slides_length five_slides) + 2) mod int (slides_length five_slides) = 2"
proof -
  have s: "slides_length five_slides = 5"
    by (simp add: five_slides_def initCarousel_def startAutoplay_def stopAutoplay_def
        createDots_def loaded_def goToSlide_def Let_def)
  show ?thesis
    by (simp add: goToSlide_def Let_def s)
qed

text \<open>
  C3, amended: with a positive slide count \<open>n\<close>, \<open>goToSlide(index)\<close> sets the current
  index to \<open>n - 1\<close> for every negative index, to 0 for every index from \<open>n\<close> on, and to
  the index itself otherwise; this is the index modulo \<open>n\<close> for every index from \<open>-1\<close> to
  \<open>n\<close>, one step past either end.
\<close>

theorem goToSlide_single_step_wrap:
  assumes "0 < slides_length c"
  shows "currentIndex (goToSlide index c) =
           (if index < 0 then int (slides_length c) - 1
            else if index \<ge> int (slides_length c) then 0 else index) \<and>
         (- 1 \<le> index \<and> index \<le> int (slides_length c) \<longrightarrow>
            currentIndex (goToSlide index c) = index mod int (slides_length c))"
proof -
  let ?n = "int (slides_length c)"
  have n: "0 < ?n" using assms by simp
  have g: "currentIndex (goToSlide index c) =
           (if index < 0 then ?n - 1 else if index \<ge> ?n then 0 else index)"
    using n by (simp add: goToSlide_def Let_def)
  have m: "currentIndex (goToSlide index c) = index mod ?n" if "- 1 \<le> index" "index \<le> ?n"
  proof (cases "index = - 1")
    case True
    then show ?thesis using n g by (simp add: zmod_minus1)
  next
    case False
    show ?thesis
    proof (cases "index = ?n")
      case True
      then show ?thesis using n g by simp
    next
      case False
      with \<open>index \<noteq> - 1\<close> that have "0 \<le> index" "index < ?n" by linarith+
      then show ?thesis using g by simp
    qed
  qed
  show ?thesis using g m by simp
qed

theorem goToSlide_single_step_wrap_witness:
  "0 < slides_length five_slides \<and> - 1 \<le> (- 1 :: int) \<and>
   - 1 \<le> int (slides_length five_slides) \<and>
   currentIndex (goToSlide (- 1) five_slides) = 4 \<and>
   currentIndex (goToSlide (- 1) five_slides) = (- 1) mod int (slides_length five_slides)"
proof -
  have s: "slides_length five_slides = 5"
    by (simp add: five_slides_def initCarousel_def startAutoplay_def stopAutoplay_def
        createDots_def loaded_def goToSlide_def Let_def)
  have p: "0 < slides_length five_slides" by (simp add: s)
  show ?thesis
    using p goToSlide_single_step_wrap [OF p, of "- 1"] by (simp add: s)
qed

text \<open>
  C4: with a positive slide count, the index \<open>goToSlide\<close> commits lies in
  \<open>[0, slideCount)\<close> for every integer argument.
\<close>

theorem goToSlide_in_range:
  assumes "0 < slides_length c"
  shows "0 \<le> currentIndex (goToSlide index c) \<and>
         currentIndex (goToSlide index c) < int (slides_length c)"
  using assms by (simp add: goToSlide_def Let_def)

theorem goToSlide_in_range_witness:
  "0 < slides_length five_slides \<and>
   currentIndex (goToSlide (-7) five_slides) = 4 \<and>
   currentIndex (goToSlide 12 five_slides) = 0 \<and>
   0 \<le> currentIndex (goToSlide (-7) five_slides) \<and>
   currentIndex (goToSlide (-7) five_slides) < int (slides_length five_slides)"
proof -
  have s: "slides_length five_slides = 5"
    by (simp add: five_slides_def initCarousel_def startAutoplay_def stopAutoplay_def
        createDots_def loaded_def goToSlide_def Let_def)
  have p: "0 < slides_length five_slides" by (simp add: s)
  show ?thesis
    using p goToSlide_in_range [OF p, of "-7"]
    by (simp add: goToSlide_def Let_def s)
qed

section \<open>The carousel: the autoplay timer\<close>

lemma goToSlide_timer [simp]:
  "autoplayTimer (goToSlide i c) = autoplayTimer c"
  "intervals (goToSlide i c) = intervals c"
  "next_handle (goToSlide i c) = next_handle c"
  by (simp_all add: goToSlide_def Let_def)

lemma goToSlide_inv: "timer_inv (goToSlide i c) = timer_inv c"
  by (simp add: timer_inv_def split: option.splits)

lemma stopAutoplay_inv:
  assumes "timer_inv c"
  shows "autoplayTimer (stopAutoplay c) = None \<and> intervals (stopAutoplay c) = [] \<and>
         next_handle (stopAutoplay c) = next_handle c"
  using assms by (auto simp: timer_inv_def stopAutoplay_def split: option.splits)

lemma stopAutoplay_preserves: "timer_inv c \<Longrightarrow> timer_inv (stopAutoplay c)"
  using stopAutoplay_inv [of c] by (simp add: timer_inv_def split: option.splits)

lemma startAutoplay_inv:
  assumes "timer_inv c"
  shows "autoplayTimer (startAutoplay c) = Some (next_handle c) \<and>
         intervals (startAutoplay c) = [next_handle c] \<and>
         next_handle (startAutoplay c) = Suc (next_handle c)"
  using stopAutoplay_inv [OF assms] by (simp add: startAutoplay_def Let_def)

lemma startAutoplay_preserves: "timer_inv c \<Longrightarrow> timer_inv (startAutoplay c)"
  using startAutoplay_inv [of c] by (simp add: timer_inv_def split: option.splits)

lemma handle_event_preserves:
  assumes "timer_inv c"
  shows "timer_inv (handle_event e c)"
proof (cases e)
  case DOMContentLoaded
  have "timer_inv (createDots c)"
    using assms by (simp add: timer_inv_def createDots_def split: option.splits)
  then show ?thesis
    using DOMContentLoaded by (simp add: initCarousel_def startAutoplay_preserves goToSlide_inv)
next
  case (PointerDown x)
  have "timer_inv (c\<lparr>pointerDown := True, startX := x\<rparr>)"
    using assms by (simp add: timer_inv_def split: option.splits)
  then show ?thesis
    using PointerDown by (simp add: stopAutoplay_preserves)
next
  case (PointerMove x)
  then show ?thesis using assms by (simp add: timer_inv_def split: option.splits)
next
  case (PointerEnd x)
  have "timer_inv (c\<lparr>pointerDown := False, track_transition_none := False\<rparr>)"
    using assms by (simp add: timer_inv_def split: option.splits)
  then show ?thesis
    using PointerEnd assms
    by (simp add: endSwipe_def Let_def startAutoplay_preserves goToSlide_inv prevSlide_def
        nextSlide_def)
next
  case PrevClick
  then show ?thesis
    using assms by (simp add: startAutoplay_preserves goToSlide_inv prevSlide_def)
next
  case NextClick
  then show ?thesis
    using assms by (simp add: startAutoplay_preserves goToSlide_inv nextSlide_def)
next
  case (DotClick i)
  then show ?thesis using assms by (simp add: goToSlide_inv)
next
  case MouseEnter
  then show ?thesis using assms by (simp add: stopAutoplay_preserves)
next
  case MouseLeave
  then show ?thesis using assms by (simp add: startAutoplay_preserves)
next
  case (Resize w)
  have "timer_inv (c\<lparr>offsetWidth := w\<rparr>)"
    using assms by (simp add: timer_inv_def split: option.splits)
  then show ?thesis using Resize by (simp add: goToSlide_inv)
next
  case (Tick t)
  then show ?thesis using assms by (simp add: goToSlide_inv nextSlide_def)
qed

lemma reachable_timer_inv: "reachable n w c \<Longrightarrow> timer_inv c"
proof (induction rule: reachable.induct)
  case reachable_loaded
  show ?case by (simp add: timer_inv_def loaded_def)
next
  case (reachable_event c e)
  then show ?case by (simp add: handle_event_preserves)
qed

text \<open>
  C8: in every state the carousel can reach, at most one autoplay timer is active;
  \<open>startAutoplay\<close> first cancels the timer that was scheduled (after \<open>stopAutoplay\<close> the
  window holds none) and then schedules a new one, so afterwards the only active timer is
  the new handle, which was not in use before.
\<close>

theorem startAutoplay_single_timer:
  assumes "reachable n w c"
  shows "length (intervals c) \<le> 1 \<and>
         intervals (stopAutoplay c) = [] \<and>
         intervals (startAutoplay c) = [next_handle c] \<and>
         autoplayTimer (startAutoplay c) = Some (next_handle c) \<and>
         next_handle c \<notin> set (intervals c)"
proof -
  have i: "timer_inv c" using assms by (rule reachable_timer_inv)
  have "length (intervals c) \<le> 1 \<and> next_handle c \<notin> set (intervals c)"
    using i by (auto simp: timer_inv_def split: option.splits)
  then show ?thesis
    using stopAutoplay_inv [OF i] startAutoplay_inv [OF i] by simp
qed

lemma five_slides_reachable: "reachable 5 800 five_slides"
  unfolding five_slides_def by (rule reachable_event) (rule reachable_loaded)

theorem startAutoplay_single_timer_witness:
  "reachable 5 800 five_slides \<and> intervals five_slides = [1] \<and>
   intervals (startAutoplay five_slides) = [2] \<and>
   autoplayTimer (startAutoplay five_slides) = Some 2"
proof -
  have n: "next_handle five_slides = 2" "intervals five_slides = [1]"
    by (simp_all add: five_slides_def initCarousel_def startAutoplay_def stopAutoplay_def
        createDots_def loaded_def Let_def)
  show ?thesis
    using five_slides_reachable startAutoplay_single_timer [OF five_slides_reachable] n
    by simp
qed

section \<open>The map page: the circle\<close>

lemma in_circle_distance:
  "in_circle ops cs s =
     (case map_of SPOT_COORDS (spot_id s) of
        None \<Rightarrow> False
      | Some (x, y) \<Rightarrow> num_le ops (computed_distance ops cs x y) (circle_r cs))"
  by (simp add: in_circle_def computed_distance_def Let_def split: option.splits)

lemma computed_distance_radius:
  "computed_distance ops (cs\<lparr>circle_r := r\<rparr>) x y = computed_distance ops cs x y"
  by (simp add: computed_distance_def)

lemma in_circle_mono:
  assumes "transp (num_le ops)" and "num_le ops r1 r2"
    and "in_circle ops (cs\<lparr>circle_r := r1\<rparr>) s"
  shows "in_circle ops (cs\<lparr>circle_r := r2\<rparr>) s"
proof (cases "map_of SPOT_COORDS (spot_id s) :: ('a \<times> 'a) option")
  case None
  then show ?thesis using assms(3) by (simp add: in_circle_distance)
next
  case (Some p)
  obtain x y where p: "p = (x, y)" by (cases p)
  have "num_le ops (computed_distance ops cs x y) r1"
    using assms(3) Some p by (simp add: in_circle_distance computed_distance_radius)
  then have "num_le ops (computed_distance ops cs x y) r2"
    using assms(1,2) by (blast dest: transpD)
  then show ?thesis
    using Some p by (simp add: in_circle_distance computed_distance_radius)
qed

text \<open>
  C6: for a fixed centre and the fixed coordinate table, the spots inside the circle grow
  with the radius: for radii \<open>r1 \<le> r2\<close> every spot returned for \<open>r1\<close> is returned for
  \<open>r2\<close>, in the same order. The comparisons are those of the language; all the proof
  needs of them is that \<open>\<le>\<close> is transitive, as it is on doubles, where every comparison
  with NaN is false. The boundary is inclusive: a spot whose computed distance is the
  radius is inside, for every radius with \<open>r \<le> r\<close>, that is every radius but NaN.
\<close>

theorem inside_monotonic_in_radius:
  assumes "transp (num_le ops)" and "num_le ops r1 r2"
  shows "set (inside ops (cs\<lparr>circle_r := r1\<rparr>)) \<subseteq> set (inside ops (cs\<lparr>circle_r := r2\<rparr>)) \<and>
         subseq (inside ops (cs\<lparr>circle_r := r1\<rparr>)) (inside ops (cs\<lparr>circle_r := r2\<rparr>)) \<and>
         (s \<in> set DUMMY_SPOTS \<and> map_of SPOT_COORDS (spot_id s) = Some (x, y) \<and>
          computed_distance ops cs x y = r2 \<and> num_le ops r2 r2
          \<longrightarrow> s \<in> set (inside ops (cs\<lparr>circle_r := r2\<rparr>)))"
proof -
  have i: "in_circle ops (cs\<lparr>circle_r := r2\<rparr>) t"
    if "in_circle ops (cs\<lparr>circle_r := r1\<rparr>) t" for t
    using assms that by (rule in_circle_mono)
  have "inside ops (cs\<lparr>circle_r := r1\<rparr>) =
        filter (in_circle ops (cs\<lparr>circle_r := r1\<rparr>)) (inside ops (cs\<lparr>circle_r := r2\<rparr>))"
    using i by (auto simp: inside_def intro: filter_cong)
  then have q: "subseq (inside ops (cs\<lparr>circle_r := r1\<rparr>)) (inside ops (cs\<lparr>circle_r := r2\<rparr>))"
    by (metis subseq_filter_left)
  have m: "set (inside ops (cs\<lparr>circle_r := r1\<rparr>)) \<subseteq> set (inside ops (cs\<lparr>circle_r := r2\<rparr>))"
    using i by (auto simp: inside_def)
  have b: "s \<in> set DUMMY_SPOTS \<and> map_of SPOT_COORDS (spot_id s) = Some (x, y) \<and>
           computed_distance ops cs x y = r2 \<and> num_le ops r2 r2
           \<longrightarrow> s \<in> set (inside ops (cs\<lparr>circle_r := r2\<rparr>))"
    by (auto simp: inside_def in_circle_distance computed_distance_radius)
  show ?thesis using m q b by simp
qed

lemma real_numbers_transp: "transp (num_le real_numbers)"
  by (auto simp: real_numbers_def intro: transpI)

lemma sqrt_le_squares:
  assumes "0 \<le> r"
  shows "(sqrt a \<le> r) = (a \<le> r * r)"
proof -
  have "sqrt (r * r) = r" using assms by simp
  then have "(sqrt a \<le> r) = (sqrt a \<le> sqrt (r * r))" by simp
  also have "\<dots> = (a \<le> r * r)" by (rule real_sqrt_le_iff)
  finally show ?thesis .
qed

lemma in_circle_squares:
  assumes "0 \<le> circle_r cs"
  shows "in_circle real_numbers cs s =
           (case map_of SPOT_COORDS (spot_id s) of
              None \<Rightarrow> False
            | Some (x, y) \<Rightarrow>
                (x - circle_x cs) * (x - circle_x cs) + (y - circle_y cs) * (y - circle_y cs)
                  \<le> circle_r cs * circle_r cs)"
  using assms
  by (simp add: in_circle_def real_numbers_def Let_def sqrt_le_squares split: option.splits)

lemma sqrt_1600: "sqrt 1600 = 40"
  by (rule real_sqrt_unique) simp_all

lemma inside_30:
  "map spot_id (inside real_numbers (circleState\<lparr>circle_r := 30\<rparr>)) = [u ''s5'']"
  by (simp add: inside_def in_circle_squares DUMMY_SPOTS_def SPOT_COORDS_def circleState_def
      u_def)

lemma inside_40:
  "map spot_id (inside real_numbers (circleState\<lparr>circle_r := 40\<rparr>)) = [u ''s1'', u ''s5'']"
  by (simp add: inside_def in_circle_squares DUMMY_SPOTS_def SPOT_COORDS_def circleState_def
      u_def)

lemma first_spot:
  "DUMMY_SPOTS ! 0 \<in> set DUMMY_SPOTS \<and>
   map_of SPOT_COORDS (spot_id (DUMMY_SPOTS ! 0)) = Some (260 :: real, 200) \<and>
   computed_distance real_numbers circleState 260 200 = 40"
  by (simp add: DUMMY_SPOTS_def SPOT_COORDS_def circleState_def computed_distance_def
      real_numbers_def u_def sqrt_1600)

theorem inside_monotonic_in_radius_witness:
  "num_le real_numbers 30 40 \<and> num_le real_numbers 40 40 \<and>
   map spot_id (inside real_numbers (circleState\<lparr>circle_r := 30\<rparr>)) = [u ''s5''] \<and>
   map spot_id (inside real_numbers (circleState\<lparr>circle_r := 40\<rparr>)) = [u ''s1'', u ''s5''] \<and>
   set (inside real_numbers (circleState\<lparr>circle_r := 30\<rparr>))
     \<subseteq> set (inside real_numbers (circleState\<lparr>circle_r := 40\<rparr>)) \<and>
   DUMMY_SPOTS ! 0 \<in> set DUMMY_SPOTS \<and>
   map_of SPOT_COORDS (spot_id (DUMMY_SPOTS ! 0)) = Some (260 :: real, 200) \<and>
   computed_distance real_numbers circleState 260 200 = 40 \<and>
   DUMMY_SPOTS ! 0 \<in> set (inside real_numbers (circleState\<lparr>circle_r := 40\<rparr>))"
proof -
  have le: "num_le real_numbers 30 40" "num_le real_numbers 40 40"
    by (simp_all add: real_numbers_def)
  show ?thesis
    using le inside_30 inside_40 first_spot
      inside_monotonic_in_radius [OF real_numbers_transp le(1),
        of circleState "DUMMY_SPOTS ! 0" 260 200]
    by simp
qed

end
